theory Spec2Isabelle
  imports Main
begin

section \<open>The WebAssembly generator: data model\<close>

text \<open>
  The generator of \<^verbatim>\<open>lib/wasm/WebAssemblyGenerator.js\<close> decodes a binary module into a
  tree, analyses the tree, and patches the binary in three stages. The tree nodes the
  source reads or builds are modelled below; the node constructors of the AST library
  (\<^verbatim>\<open>t.global\<close>, \<^verbatim>\<open>t.func\<close>, \<^verbatim>\<open>t.identifier\<close>, ...) are datatype constructors.
  An index literal (\<^verbatim>\<open>t.indexLiteral(n)\<close>) is the natural number it wraps.
\<close>

datatype valtype = I32 | I64 | F32 | F64

datatype mutability = Const | Var

text \<open>The descriptor of an import; \<^verbatim>\<open>descr.type\<close> is the constructor.\<close>

datatype descr =
    GlobalType (valtype: valtype) (mutability: mutability)
  | FuncImportDescr
  | Memory
  | Table

record moduleImport =
  module :: string
  name :: string
  descr :: descr

datatype start = Start (index: nat)

record sectionMetadata =
  section_name :: string
  vectorOfSize :: nat

text \<open>
  The decoded tree, one ordered sequence of nodes per section kind. A traversal with a
  visitor for one node type visits the nodes of that type in order; no visitor object of
  the source handles two node types, so the order between kinds is never observed.
  Nodes of the kinds the source never visits are not represented.
\<close>

record ast =
  moduleImports :: "moduleImport list"
  starts :: "start list"
  metadata :: "sectionMetadata list"

text \<open>
  A reference to a node object is the position the node has in the decoded tree.
\<close>

datatype nodeRef = ImportRef nat | StartRef nat

text \<open>
  The tree while the pipeline runs is one mutable object shared by all stages, which
  pass it on explicitly. \<open>objects\<close> holds the node objects in their decoded positions,
  with what has been written to them since, and the section metadata the tree carries
  now. \<^verbatim>\<open>path.remove()\<close> detaches a node from the tree; the object itself stays reachable
  through the references the generator holds, so it stays in \<open>objects\<close> and its reference
  is added to \<open>detached\<close>.
\<close>

record sharedTree =
  objects :: ast
  detached :: "nodeRef list"

definition treeOf :: "ast \<Rightarrow> sharedTree" where
  "treeOf a = \<lparr>objects = a, detached = []\<rparr>"

definition attachedNodes :: "(nat \<Rightarrow> nodeRef) \<Rightarrow> nodeRef list \<Rightarrow> 'a list \<Rightarrow> 'a list" where
  "attachedNodes ref gone ns =
     map snd (filter (\<lambda>(i, n). ref i \<notin> set gone) (enumerate 0 ns))"

text \<open>The tree as a traversal or the patch library finds it: the nodes still attached.\<close>

definition attached :: "sharedTree \<Rightarrow> ast" where
  "attached t =
     (objects t)
       \<lparr>moduleImports := attachedNodes ImportRef (detached t) (moduleImports (objects t)),
        starts := attachedNodes StartRef (detached t) (starts (objects t))\<rparr>"

definition withMetadata :: "sharedTree \<Rightarrow> sectionMetadata list \<Rightarrow> sharedTree" where
  "withMetadata t md = t\<lparr>objects := (objects t)\<lparr>metadata := md\<rparr>\<rparr>"

datatype ident = Identifier (ident_value: string)

text \<open>
  A function parameter as \<^verbatim>\<open>t.funcParam(valtype, id)\<close> builds it. The value type is read
  from a descriptor by a property access, which yields \<^verbatim>\<open>undefined\<close> (here \<open>None\<close>) on a
  descriptor that is not a \<open>GlobalType\<close>.
\<close>

datatype funcParam = FuncParam (param_valtype: "valtype option") (param_id: ident)

datatype signature = Signature (params: "funcParam list") (result: "valtype list")

datatype instruction =
    Instr string "nat list"
  | ObjectInstr string valtype "nat list"
  | CallInstr nat

datatype node =
    Global descr "instruction list"
  | Func ident signature "instruction list"
  | ModuleExport string string nat
  | IndexInFuncSection nat
  | TypeInstruction signature

text \<open>
  The collaborators that are not part of the generator are parameters; the type \<open>'b\<close> is
  the binary buffer. The decoder is a function from buffers to trees that is \<open>None\<close>
  when it throws on malformed input. The patch-applier is the record below. Its first
  two fields give the buffer that results from the byte patch \<^verbatim>\<open>editWithAST\<close> performs for
  the nodes on which the visitor called \<^verbatim>\<open>path.remove()\<close>, and from \<^verbatim>\<open>addWithAST\<close>; both are
  given the tree as the visitor left it. The patch operations also keep the tree in
  step with the bytes: the last two fields give the section metadata the tree carries
  after each operation.
\<close>

record 'b wasmEdit =
  removeNodes :: "ast \<Rightarrow> 'b \<Rightarrow> nodeRef list \<Rightarrow> 'b"
  addWithAST :: "ast \<Rightarrow> 'b \<Rightarrow> node list \<Rightarrow> 'b"
  metadataAfterRemove :: "ast \<Rightarrow> 'b \<Rightarrow> nodeRef list \<Rightarrow> sectionMetadata list"
  metadataAfterAdd :: "ast \<Rightarrow> 'b \<Rightarrow> node list \<Rightarrow> sectionMetadata list"

section \<open>Utility functions\<close>

definition compose :: "('a \<Rightarrow> 'a) list \<Rightarrow> 'a \<Rightarrow> 'a" where
  "compose fns =
     foldl (\<lambda>prevFn nextFn. (\<lambda>value. nextFn (prevFn value))) (\<lambda>value. value) (rev fns)"

definition isGlobalImport :: "moduleImport \<Rightarrow> bool" where
  "isGlobalImport n = (case descr n of GlobalType vt mu \<Rightarrow> True | _ \<Rightarrow> False)"

definition isFuncImport :: "moduleImport \<Rightarrow> bool" where
  "isFuncImport n = (case descr n of FuncImportDescr \<Rightarrow> True | _ \<Rightarrow> False)"

definition initFuncId :: ident where
  "initFuncId = Identifier ''__webpack_init__''"

text \<open>
  Modelled from the spec: the traversal of the AST library,
  \<^verbatim>\<open>t.traverse(ast, { ModuleImport(path) {...} })\<close>, which is not part of the source file.
  The callback runs on every import node in declaration order; it may write to the node
  and to the variables it closes over (the state \<open>'s\<close>). The position of the node is
  passed along as its reference.
\<close>

fun traverseImports ::
  "(nat \<Rightarrow> moduleImport \<Rightarrow> 's \<Rightarrow> moduleImport \<times> 's) \<Rightarrow> nat \<Rightarrow> moduleImport list \<Rightarrow> 's
     \<Rightarrow> moduleImport list \<times> 's" where
  "traverseImports visit i [] s = ([], s)"
| "traverseImports visit i (n # ns) s =
     (case visit i n s of (n', s') \<Rightarrow>
        (case traverseImports visit (Suc i) ns s' of (ns', s'') \<Rightarrow> (n' # ns', s'')))"

section \<open>Index analysis\<close>

definition getStartFuncIndex :: "ast \<Rightarrow> nat option" where
  "getStartFuncIndex a =
     foldl (\<lambda>startAtFuncIndex node. Some (index node)) None (starts a)"

definition getImportedGlobals :: "ast \<Rightarrow> nat list" where
  "getImportedGlobals a =
     snd (traverseImports
            (\<lambda>i node importedGlobals.
               (node, if isGlobalImport node then importedGlobals @ [i] else importedGlobals))
            0 (moduleImports a) [])"

definition getCountImportedFunc :: "ast \<Rightarrow> nat" where
  "getCountImportedFunc a =
     snd (traverseImports
            (\<lambda>i node count. (node, if isFuncImport node then count + 1 else count))
            0 (moduleImports a) 0)"

text \<open>
  Modelled from the spec: \<^verbatim>\<open>t.getSectionMetadata(ast, name)\<close> of the AST library, which is
  not part of the source file. It yields the metadata node of the section of that name
  (section kind and existing entry count), \<open>None\<close> (\<^verbatim>\<open>undefined\<close>) when the tree has
  none.
\<close>

definition getSectionMetadata :: "ast \<Rightarrow> string \<Rightarrow> sectionMetadata option" where
  "getSectionMetadata a nm =
     foldl (\<lambda>found node. if section_name node = nm then Some node else found) None (metadata a)"

definition getNextTypeIndex :: "ast \<Rightarrow> nat" where
  "getNextTypeIndex a =
     (case getSectionMetadata a ''type'' of
        None \<Rightarrow> 0
      | Some typeSectionMetadata \<Rightarrow> vectorOfSize typeSectionMetadata)"

definition getNextFuncIndex :: "ast \<Rightarrow> nat \<Rightarrow> nat" where
  "getNextFuncIndex a countImportedFunc =
     (case getSectionMetadata a ''func'' of
        None \<Rightarrow> 0 + countImportedFunc
      | Some funcSectionMetadata \<Rightarrow> vectorOfSize funcSectionMetadata + countImportedFunc)"

section \<open>The three transforms\<close>

text \<open>
  A transform of the source takes the buffer and returns a buffer, and reads or writes
  the shared tree on the way; here it maps the pair of tree and buffer to the new pair.

  The two calls into the patch library. \<open>patchRemoved\<close> is \<^verbatim>\<open>editWithAST\<close> once its
  traversal is over: the nodes on which the visitor called \<^verbatim>\<open>path.remove()\<close> are detached
  from the tree, and the library patches the bytes and updates the tree's metadata.
  \<open>patchAdded\<close> is \<^verbatim>\<open>addWithAST\<close>.
\<close>

definition patchRemoved ::
  "'b wasmEdit \<Rightarrow> sharedTree \<Rightarrow> 'b \<Rightarrow> nodeRef list \<Rightarrow> sharedTree \<times> 'b" where
  "patchRemoved L t bin removed =
     (let t' = t\<lparr>detached := detached t @ removed\<rparr> in
        (withMetadata t' (metadataAfterRemove L (attached t') bin removed),
         removeNodes L (attached t') bin removed))"

definition patchAdded ::
  "'b wasmEdit \<Rightarrow> sharedTree \<Rightarrow> 'b \<Rightarrow> node list \<Rightarrow> sharedTree \<times> 'b" where
  "patchAdded L t bin ns =
     (withMetadata t (metadataAfterAdd L (attached t) bin ns),
      addWithAST L (attached t) bin ns)"

text \<open>
  \<open>removeStartFunc\<close>: the visitor is called on every \<open>Start\<close> node attached to the tree
  and removes it.
\<close>

definition removeStartFunc :: "'b wasmEdit \<Rightarrow> sharedTree \<times> 'b \<Rightarrow> sharedTree \<times> 'b" where
  "removeStartFunc L = (\<lambda>(t, bin).
     patchRemoved L t bin
       (filter (\<lambda>r. r \<notin> set (detached t))
          (map StartRef [0..<length (starts (objects t))])))"

text \<open>
  The assignment \<^verbatim>\<open>globalType.mutability = "var"\<close>. It is only reached on a descriptor
  that is a \<open>GlobalType\<close>.
\<close>

fun setMutability :: "descr \<Rightarrow> mutability \<Rightarrow> descr" where
  "setMutability (GlobalType vt mu) m = GlobalType vt m"
| "setMutability d m = d"

text \<open>
  The visitor of \<open>rewriteImportedGlobals\<close>. \<^verbatim>\<open>globalType\<close> is the descriptor object of the
  visited node itself, so the assignment writes to the tree. The closed-over state is
  the list \<^verbatim>\<open>newGlobals\<close> and the nodes removed so far.
\<close>

definition rewriteVisitor ::
  "nat \<Rightarrow> moduleImport \<Rightarrow> node list \<times> nodeRef list
     \<Rightarrow> moduleImport \<times> (node list \<times> nodeRef list)" where
  "rewriteVisitor i n = (\<lambda>(newGlobals, removed).
     if isGlobalImport n then
       (let globalType = setMutability (descr n) Var in
          (n\<lparr>descr := globalType\<rparr>,
           (newGlobals @ [Global globalType [ObjectInstr ''const'' I32 [0]]],
            removed @ [ImportRef i])))
     else (n, (newGlobals, removed)))"

text \<open>
  \<open>rewriteImportedGlobals\<close>: the visitor is called on every import node attached to the
  tree. The edit removes the nodes the visitor removed; the new globals are added to
  the buffer it returns.
\<close>

definition rewriteImportedGlobals ::
  "'b wasmEdit \<Rightarrow> sharedTree \<times> 'b \<Rightarrow> sharedTree \<times> 'b" where
  "rewriteImportedGlobals L = (\<lambda>(t, bin).
     (case traverseImports
             (\<lambda>i n s. if ImportRef i \<in> set (detached t) then (n, s) else rewriteVisitor i n s)
             0 (moduleImports (objects t)) ([], []) of
        (ns, (newGlobals, removed)) \<Rightarrow>
          (case patchRemoved L (t\<lparr>objects := (objects t)\<lparr>moduleImports := ns\<rparr>\<rparr>) bin removed of
             (t', bin') \<Rightarrow> patchAdded L t' bin' newGlobals)))"

text \<open>
  The state object of \<open>addInitFunction\<close>, without its tree (the tree is the shared one).
  \<open>importedGlobals\<close> holds references to import node objects.
\<close>

record initState =
  startAtFuncIndex :: "nat option"
  importedGlobals :: "nat list"
  nextFuncIndex :: nat
  nextTypeIndex :: nat

fun descrValtype :: "descr \<Rightarrow> valtype option" where
  "descrValtype (GlobalType vt mu) = Some vt"
| "descrValtype d = None"

definition funcParams :: "ast \<Rightarrow> nat list \<Rightarrow> funcParam list" where
  "funcParams a gs =
     map (\<lambda>r. (let importedGlobal = moduleImports a ! r in
                 FuncParam (descrValtype (descr importedGlobal))
                   (Identifier (module importedGlobal @ ''.'' @ name importedGlobal))))
       gs"

definition funcBody :: "nat list \<Rightarrow> nat option \<Rightarrow> instruction list" where
  "funcBody gs startIdx =
     foldl (\<lambda>acc i. acc @ [Instr ''get_local'' [i], Instr ''set_global'' [i]])
       [] [0..<length gs]
     @ (case startIdx of None \<Rightarrow> [] | Some s \<Rightarrow> [CallInstr s])"

text \<open>The four nodes that \<open>addInitFunction\<close> hands to \<^verbatim>\<open>addWithAST\<close>.\<close>

definition initFunctionNodes :: "ast \<Rightarrow> initState \<Rightarrow> node list" where
  "initFunctionNodes a st =
     (let funcResults = [];
          funcSignature = Signature (funcParams a (importedGlobals st)) funcResults;
          func = Func initFuncId funcSignature
                   (funcBody (importedGlobals st) (startAtFuncIndex st));
          functype = TypeInstruction (Signature (params funcSignature) (result funcSignature));
          funcindex = IndexInFuncSection (nextTypeIndex st);
          moduleExport = ModuleExport (ident_value initFuncId) ''Func'' (nextFuncIndex st)
      in [func, moduleExport, funcindex, functype])"

definition addInitFunction ::
  "'b wasmEdit \<Rightarrow> initState \<Rightarrow> sharedTree \<times> 'b \<Rightarrow> sharedTree \<times> 'b" where
  "addInitFunction L st = (\<lambda>(t, bin).
     patchAdded L t bin (initFunctionNodes (objects t) st))"

section \<open>The generator\<close>

text \<open>The analysis results that \<open>generate\<close> computes from the decoded tree.\<close>

definition analyse :: "ast \<Rightarrow> initState" where
  "analyse a =
     (let gs = getImportedGlobals a;
          countImportedFunc = getCountImportedFunc a;
          startIdx = getStartFuncIndex a;
          nextFunc = getNextFuncIndex a countImportedFunc;
          nextType = getNextTypeIndex a
      in \<lparr>startAtFuncIndex = startIdx, importedGlobals = gs,
          nextFuncIndex = nextFunc, nextTypeIndex = nextType\<rparr>)"

definition generate :: "('b \<Rightarrow> ast option) \<Rightarrow> 'b wasmEdit \<Rightarrow> 'b \<Rightarrow> 'b option" where
  "generate decode L bin =
     (case decode bin of
        None \<Rightarrow> None
      | Some a \<Rightarrow>
          (let transform = compose [removeStartFunc L, rewriteImportedGlobals L,
                                    addInitFunction L (analyse a)]
           in Some (snd (transform (treeOf a, bin)))))"

text \<open>
  A patch-applier that records the calls it receives: a buffer is the tree its original
  bytes decode to, together with the edits requested on it since, in order. It leaves
  the metadata of the tree as it finds it. Its decoder reads a buffer without edits.
\<close>

datatype edit = Removed "nodeRef list" | Added "node list"

definition recordingLib :: "(ast \<times> edit list) wasmEdit" where
  "recordingLib =
     \<lparr>removeNodes = (\<lambda>a b refs. (fst b, snd b @ [Removed refs])),
      addWithAST = (\<lambda>a b ns. (fst b, snd b @ [Added ns])),
      metadataAfterRemove = (\<lambda>a b refs. metadata a),
      metadataAfterAdd = (\<lambda>a b ns. metadata a)\<rparr>"

definition recordingDecode :: "ast \<times> edit list \<Rightarrow> ast option" where
  "recordingDecode b = (if snd b = [] then Some (fst b) else None)"

text \<open>
  What the interning visitor leaves behind for one import node: the node with its
  descriptor overwritten, and the global it pushes.
\<close>

definition internDescr :: "moduleImport \<Rightarrow> moduleImport" where
  "internDescr n =
     (if isGlobalImport n then n\<lparr>descr := setMutability (descr n) Var\<rparr> else n)"

definition internedGlobal :: "moduleImport \<Rightarrow> node" where
  "internedGlobal n = Global (setMutability (descr n) Var) [ObjectInstr ''const'' I32 [0]]"

text \<open>Example trees for the closed instances below.\<close>

definition envImport :: "string \<Rightarrow> descr \<Rightarrow> moduleImport" where
  "envImport nm d = \<lparr>module = ''env'', name = nm, descr = d\<rparr>"

definition plainTree :: ast where
  "plainTree =
     \<lparr>moduleImports = [envImport ''log'' FuncImportDescr, envImport ''mem'' Memory],
      starts = [],
      metadata = [\<lparr>section_name = ''type'', vectorOfSize = 2\<rparr>,
                  \<lparr>section_name = ''import'', vectorOfSize = 2\<rparr>,
                  \<lparr>section_name = ''func'', vectorOfSize = 3\<rparr>]\<rparr>"

definition bareTree :: ast where
  "bareTree =
     \<lparr>moduleImports = [envImport ''mem'' Memory],
      starts = [],
      metadata = [\<lparr>section_name = ''import'', vectorOfSize = 1\<rparr>]\<rparr>"

definition fullTree :: ast where
  "fullTree =
     \<lparr>moduleImports = [envImport ''log'' FuncImportDescr,
                        envImport ''base'' (GlobalType F64 Const),
                        envImport ''mem'' Memory,
                        envImport ''count'' (GlobalType I32 Var)],
      starts = [Start 4],
      metadata = [\<lparr>section_name = ''type'', vectorOfSize = 2\<rparr>,
                  \<lparr>section_name = ''import'', vectorOfSize = 4\<rparr>,
                  \<lparr>section_name = ''func'', vectorOfSize = 3\<rparr>,
                  \<lparr>section_name = ''start'', vectorOfSize = 1\<rparr>]\<rparr>"

section \<open>A module image for the patch operations\<close>

text \<open>
  Modelled from the spec: the patch-applier (\<^verbatim>\<open>remove(tree, bytes, nodeSelector)\<close> and
  \<^verbatim>\<open>add(tree, bytes, newNodes)\<close>) is an external collaborator, absent from the source
  file. The buffer it works on is represented by what its bytes hold, section by
  section: the import and start entries still present (with their position in the
  decoded tree, which is how a node reference anchors an edit), the global section, and
  the entries added to the remaining sections.
\<close>

record moduleImage =
  image_imports :: "(nat \<times> moduleImport) list"
  image_starts :: "(nat \<times> start) list"
  image_globals :: "node list"
  image_added :: "node list"

fun isGlobalNode :: "node \<Rightarrow> bool" where
  "isGlobalNode (Global d init) = True"
| "isGlobalNode n = False"

text \<open>
  Modelled from the spec: the patch-applier. Removal deletes the referenced entries and
  nothing else. Addition follows the data model's rule for new definitions, "defined
  entities are appended at the end of the existing index range": an added global goes
  to the end of the global section, any other node to the end of the added entries.
  The tree is "used purely for analysis/patch targeting": its metadata is left as it is.
\<close>

definition specLib :: "moduleImage wasmEdit" where
  "specLib =
     \<lparr>removeNodes = (\<lambda>a b refs.
         b\<lparr>image_imports := filter (\<lambda>(i, n). ImportRef i \<notin> set refs) (image_imports b),
           image_starts := filter (\<lambda>(i, n). StartRef i \<notin> set refs) (image_starts b)\<rparr>),
      addWithAST = (\<lambda>a b ns.
         b\<lparr>image_globals := image_globals b @ filter isGlobalNode ns,
           image_added := image_added b @ filter (\<lambda>n. \<not> isGlobalNode n) ns\<rparr>),
      metadataAfterRemove = (\<lambda>a b refs. metadata a),
      metadataAfterAdd = (\<lambda>a b ns. metadata a)\<rparr>"

text \<open>
  Modelled from the spec: the image of an unpatched module, whose decoded tree is \<open>a\<close>
  and whose global section holds the locally defined globals \<open>localGlobals\<close>.
\<close>

definition imageOf :: "ast \<Rightarrow> node list \<Rightarrow> moduleImage" where
  "imageOf a localGlobals =
     \<lparr>image_imports = enumerate 0 (moduleImports a),
      image_starts = enumerate 0 (starts a),
      image_globals = localGlobals,
      image_added = []\<rparr>"

text \<open>
  Modelled from the spec: the global index space of a module, "imported entities are
  numbered before locally defined entities of the same kind": the imported globals in
  import order, then the entries of the global section in order.
\<close>

datatype globalEntry = ImportedGlobal moduleImport | DefinedGlobal node

definition globalIndexSpace :: "moduleImage \<Rightarrow> globalEntry list" where
  "globalIndexSpace b =
     map ImportedGlobal (filter isGlobalImport (map snd (image_imports b)))
     @ map DefinedGlobal (image_globals b)"

definition localTree :: ast where
  "localTree =
     \<lparr>moduleImports = [envImport ''base'' (GlobalType I32 Const)],
      starts = [],
      metadata = [\<lparr>section_name = ''import'', vectorOfSize = 1\<rparr>,
                  \<lparr>section_name = ''global'', vectorOfSize = 1\<rparr>]\<rparr>"

definition localGlobal :: node where
  "localGlobal = Global (GlobalType I32 Const) [ObjectInstr ''const'' I32 [7]]"

text \<open>
  The image of the module with tree \<open>fullTree\<close> and one locally defined global, and a
  decoder that reads it.
\<close>

definition fullImage :: moduleImage where
  "fullImage = imageOf fullTree [localGlobal]"

definition fullImageDecode :: "moduleImage \<Rightarrow> ast option" where
  "fullImageDecode b = (if b = fullImage then Some fullTree else None)"

section \<open>Properties of the traversals\<close>

lemma compose3: "compose [f, g, h] v = f (g (h v))"
  by (simp add: compose_def)

lemma upt_filter_shift:
  "[j\<leftarrow>[Suc i..<Suc (i + length ns)]. P ((n # ns) ! (j - i))]
     = [j\<leftarrow>[Suc i..<Suc i + length ns]. P (ns ! (j - Suc i))]"
  by (rule filter_cong) (auto simp: nth_Cons' Suc_diff_Suc)

lemma traverse_collect:
  "traverseImports (\<lambda>i node acc. (node, if P node then acc @ [i] else acc)) i ns acc
     = (ns, acc @ [j\<leftarrow>[i..<i + length ns]. P (ns ! (j - i))])"
proof (induction ns arbitrary: i acc)
  case Nil
  then show ?case by simp
next
  case (Cons n ns)
  have "[i..<i + length (n # ns)] = i # [Suc i..<Suc (i + length ns)]"
    using upt_conv_Cons [of i "Suc (i + length ns)"] by (simp del: upt_Suc)
  then show ?case
    using upt_filter_shift [where i=i and ns=ns and P=P and n=n] by (simp add: Cons.IH)
qed

lemma getImportedGlobals_filter:
  "getImportedGlobals a
     = [j\<leftarrow>[0..<length (moduleImports a)]. isGlobalImport (moduleImports a ! j)]"
  by (simp add: getImportedGlobals_def traverse_collect)

lemma deref_filter: "map ((!) xs) [j\<leftarrow>[0..<length xs]. P (xs ! j)] = filter P xs"
proof -
  have "filter P xs = filter P (map ((!) xs) [0..<length xs])"
    by (simp add: map_nth)
  also have "\<dots> = map ((!) xs) (filter (P \<circ> (!) xs) [0..<length xs])"
    by (simp only: filter_map)
  finally show ?thesis by (simp add: comp_def)
qed

lemma traverse_count:
  "traverseImports (\<lambda>i node c. (node, if P node then c + 1 else c)) i ns (c::nat)
     = (ns, c + length (filter P ns))"
  by (induction ns arbitrary: i c) auto

lemma getCountImportedFunc_length:
  "getCountImportedFunc a = length (filter isFuncImport (moduleImports a))"
  by (simp add: getCountImportedFunc_def traverse_count)

lemma rewriteVisitor_step:
  "rewriteVisitor i n (gs, rs)
     = (internDescr n,
        (gs @ (if isGlobalImport n then [internedGlobal n] else []),
         rs @ (if isGlobalImport n then [ImportRef i] else [])))"
  by (simp add: rewriteVisitor_def internDescr_def internedGlobal_def Let_def)

lemma traverse_rewrite:
  "traverseImports rewriteVisitor i ns (gs, rs)
     = (map internDescr ns,
        (gs @ map internedGlobal (filter isGlobalImport ns),
         rs @ map ImportRef [j\<leftarrow>[i..<i + length ns]. isGlobalImport (ns ! (j - i))]))"
proof (induction ns arbitrary: i gs rs)
  case Nil
  then show ?case by simp
next
  case (Cons n ns)
  have "[i..<i + length (n # ns)] = i # [Suc i..<Suc (i + length ns)]"
    using upt_conv_Cons [of i "Suc (i + length ns)"] by (simp del: upt_Suc)
  then show ?case
    using upt_filter_shift [where i=i and ns=ns and P=isGlobalImport and n=n]
    by (simp add: Cons.IH rewriteVisitor_step)
qed

lemma getStartFuncIndex_last:
  "getStartFuncIndex a = (if starts a = [] then None else Some (index (last (starts a))))"
proof -
  have "foldl (\<lambda>startAtFuncIndex node. Some (index node)) acc xs
          = (if xs = [] then acc else Some (index (last xs)))" for acc and xs :: "start list"
    by (induction xs arbitrary: acc) auto
  then show ?thesis by (simp add: getStartFuncIndex_def)
qed

lemma foldl_pairs:
  "foldl (\<lambda>acc i. acc @ [Instr ''get_local'' [i], Instr ''set_global'' [i]]) acc xs
     = acc @ concat (map (\<lambda>i. [Instr ''get_local'' [i], Instr ''set_global'' [i]]) xs)"
  by (induction xs arbitrary: acc) auto

lemma foldl_find_absent:
  "nm \<notin> section_name ` set xs \<Longrightarrow>
   foldl (\<lambda>found node. if section_name node = nm then Some node else found) acc xs = acc"
  by (induction xs arbitrary: acc) auto

lemma getSectionMetadata_absent:
  "nm \<notin> section_name ` set (metadata a) \<Longrightarrow> getSectionMetadata a nm = None"
  by (simp add: getSectionMetadata_def foldl_find_absent)

lemma getSectionMetadata_unique:
  "filter (\<lambda>md. section_name md = nm) (metadata a) = [md]
     \<Longrightarrow> getSectionMetadata a nm = Some md"
proof -
  have "foldl (\<lambda>found node. if section_name node = nm then Some node else found) acc xs
          = (case filter (\<lambda>md. section_name md = nm) xs of
               [] \<Rightarrow> acc | ys \<Rightarrow> Some (last ys))"
    for acc and xs :: "sectionMetadata list"
    by (induction xs arbitrary: acc) (auto split: list.splits)
  then show "filter (\<lambda>md. section_name md = nm) (metadata a) = [md]
               \<Longrightarrow> getSectionMetadata a nm = Some md"
    by (simp add: getSectionMetadata_def)
qed

section \<open>Properties of the transforms\<close>

lemma attachedNodes_none: "attachedNodes ref [] ns = ns"
  by (simp add: attachedNodes_def map_snd_enumerate)

lemma attached_no_detached: "attached \<lparr>objects = a, detached = []\<rparr> = a"
  by (simp add: attached_def attachedNodes_none)

lemma attached_treeOf: "attached (treeOf a) = a"
  by (simp add: treeOf_def attached_no_detached)

lemma attached_withMetadata:
  "attached (withMetadata t md) = (attached t)\<lparr>metadata := md\<rparr>"
  by (simp add: attached_def withMetadata_def)

lemma guarded_visitor:
  "\<forall>i. ImportRef i \<notin> set d \<Longrightarrow>
   (\<lambda>i n s. if ImportRef i \<in> set d then (n, s) else rewriteVisitor i n s) = rewriteVisitor"
  by (intro ext) simp

lemma traverse_rewrite0:
  "traverseImports rewriteVisitor 0 ns ([], [])
     = (map internDescr ns,
        (map internedGlobal (filter isGlobalImport ns),
         map ImportRef [j\<leftarrow>[0..<length ns]. isGlobalImport (ns ! j)]))"
  using traverse_rewrite [of 0 ns "[]" "[]"] by simp

lemma rewriteImportedGlobals_eq:
  assumes "\<forall>i. ImportRef i \<notin> set (detached t)"
  shows "rewriteImportedGlobals L (t, bin) =
     (case patchRemoved L
             (t\<lparr>objects := (objects t)\<lparr>moduleImports := map internDescr (moduleImports (objects t))\<rparr>\<rparr>)
             bin (map ImportRef (getImportedGlobals (objects t))) of
        (t', bin') \<Rightarrow>
          patchAdded L t' bin'
            (map internedGlobal (filter isGlobalImport (moduleImports (objects t)))))"
  by (simp add: rewriteImportedGlobals_def guarded_visitor [OF assms] traverse_rewrite0
        getImportedGlobals_filter)

lemma funcParams_analyse:
  "funcParams a (getImportedGlobals a) =
     map (\<lambda>g. FuncParam (Some (valtype (descr g))) (Identifier (module g @ ''.'' @ name g)))
       (filter isGlobalImport (moduleImports a))"
proof -
  let ?f = "\<lambda>g. FuncParam (descrValtype (descr g)) (Identifier (module g @ ''.'' @ name g))"
  have "funcParams a (getImportedGlobals a)
          = map ?f (map ((!) (moduleImports a)) (getImportedGlobals a))"
    by (simp add: funcParams_def Let_def comp_def)
  also have "\<dots> = map ?f (filter isGlobalImport (moduleImports a))"
    by (simp only: getImportedGlobals_filter deref_filter)
  also have "\<dots> = map (\<lambda>g. FuncParam (Some (valtype (descr g)))
                               (Identifier (module g @ ''.'' @ name g)))
                     (filter isGlobalImport (moduleImports a))"
    by (rule map_cong) (auto simp: isGlobalImport_def split: descr.splits)
  finally show ?thesis .
qed

lemma analyse_fields:
  "importedGlobals (analyse a) = getImportedGlobals a"
  "startAtFuncIndex (analyse a) = getStartFuncIndex a"
  "nextFuncIndex (analyse a) = getNextFuncIndex a (getCountImportedFunc a)"
  "nextTypeIndex (analyse a) = getNextTypeIndex a"
  by (simp_all add: analyse_def Let_def)

lemma length_getImportedGlobals:
  "length (getImportedGlobals a) = length (filter isGlobalImport (moduleImports a))"
  using arg_cong [OF deref_filter [of "moduleImports a" isGlobalImport], of length]
  by (simp add: getImportedGlobals_filter)

lemma getImportedGlobals_none:
  "filter isGlobalImport (moduleImports a) = [] \<Longrightarrow> getImportedGlobals a = []"
  using length_getImportedGlobals [of a] by simp

lemma internDescr_none:
  "filter isGlobalImport ns = [] \<Longrightarrow> map internDescr ns = ns"
  by (induction ns) (auto simp: internDescr_def split: if_splits)

lemma funcBody_eq:
  "funcBody gs startIdx =
     concat (map (\<lambda>i. [Instr ''get_local'' [i], Instr ''set_global'' [i]]) [0..<length gs])
     @ (case startIdx of None \<Rightarrow> [] | Some s \<Rightarrow> [CallInstr s])"
  by (simp add: funcBody_def foldl_pairs)

lemma no_call_in_pairs:
  "CallInstr s \<notin> set (concat (map (\<lambda>i. [Instr ''get_local'' [i], Instr ''set_global'' [i]]) xs))"
  by (induction xs) auto

lemma patchAdded_treeOf:
  "patchAdded L (treeOf a) bin ns =
     (treeOf (a\<lparr>metadata := metadataAfterAdd L a bin ns\<rparr>), addWithAST L a bin ns)"
  by (simp add: patchAdded_def attached_no_detached withMetadata_def treeOf_def)

lemma patchRemoved_nothing:
  "patchRemoved L (treeOf a) bin [] =
     (treeOf (a\<lparr>metadata := metadataAfterRemove L a bin []\<rparr>), removeNodes L a bin [])"
  by (simp add: patchRemoved_def attached_no_detached withMetadata_def treeOf_def)

lemma addInitFunction_treeOf:
  "addInitFunction L st (treeOf a, bin) =
     (treeOf (a\<lparr>metadata := metadataAfterAdd L a bin (initFunctionNodes a st)\<rparr>),
      addWithAST L a bin (initFunctionNodes a st))"
  by (simp add: addInitFunction_def patchAdded_treeOf) (simp add: treeOf_def)

text \<open>
  \<open>compose\<close> reverses its arguments before it chains them: \<open>generate\<close> applies
  \<open>addInitFunction\<close> first, to the input buffer and the tree as decoded, then
  \<open>rewriteImportedGlobals\<close>, then \<open>removeStartFunc\<close>.
\<close>

lemma generate_pipeline:
  "generate decode L bin =
     (case decode bin of
        None \<Rightarrow> None
      | Some a \<Rightarrow>
          Some (snd (removeStartFunc L (rewriteImportedGlobals L
                  (addInitFunction L (analyse a) (treeOf a, bin))))))"
  by (simp add: generate_def compose3 Let_def split: option.splits)

lemma rewriteImportedGlobals_nothing:
  assumes "filter isGlobalImport (moduleImports a) = []"
  shows "rewriteImportedGlobals L (treeOf a, bin) =
     patchAdded L (treeOf (a\<lparr>metadata := metadataAfterRemove L a bin []\<rparr>))
       (removeNodes L a bin []) []"
proof -
  have tree: "(treeOf a)\<lparr>objects := (objects (treeOf a))
                \<lparr>moduleImports := map internDescr (moduleImports (objects (treeOf a)))\<rparr>\<rparr> = treeOf a"
    using assms by (simp add: treeOf_def internDescr_none)
  have nodet: "\<forall>i. ImportRef i \<notin> set (detached (treeOf a))"
    by (simp add: treeOf_def)
  have objs: "objects (treeOf a) = a"
    by (simp add: treeOf_def)
  show ?thesis
    unfolding rewriteImportedGlobals_eq [OF nodet] tree
    by (simp add: objs assms getImportedGlobals_none patchRemoved_nothing)
qed

lemma removeStartFunc_nothing:
  assumes "starts a = []"
  shows "removeStartFunc L (treeOf a, bin) =
     (treeOf (a\<lparr>metadata := metadataAfterRemove L a bin []\<rparr>), removeNodes L a bin [])"
  using assms
  by (simp add: removeStartFunc_def patchRemoved_def attached_no_detached withMetadata_def
        treeOf_def)

lemma enumerate_nth: "enumerate 0 xs = map (\<lambda>i. (i, xs ! i)) [0..<length xs]"
  by (rule nth_equalityI) (simp_all add: nth_enumerate_eq)

lemma attachedNodes_positions:
  "attachedNodes ref gone xs = map ((!) xs) (filter (\<lambda>i. ref i \<notin> set gone) [0..<length xs])"
  by (simp add: attachedNodes_def enumerate_nth filter_map comp_def)

text \<open>
  What is left attached once the nodes that satisfy \<open>Q\<close> have been removed, and what
  removals of the other kind leave.
\<close>

lemma attached_after_interning:
  "attachedNodes ImportRef (map ImportRef [j\<leftarrow>[0..<length ns]. Q (ns ! j)]) (map f ns)
     = map f (filter (\<lambda>n. \<not> Q n) ns)"
proof -
  have "attachedNodes ImportRef (map ImportRef [j\<leftarrow>[0..<length ns]. Q (ns ! j)]) (map f ns)
          = map ((!) (map f ns)) (filter (\<lambda>i. \<not> Q (ns ! i)) [0..<length ns])"
    unfolding attachedNodes_positions
    by (rule arg_cong [where f = "map ((!) (map f ns))"]) (auto intro: filter_cong)
  also have "\<dots> = map f (map ((!) ns) (filter (\<lambda>i. \<not> Q (ns ! i)) [0..<length ns]))"
    by simp
  also have "\<dots> = map f (filter (\<lambda>n. \<not> Q n) ns)"
    using deref_filter [of ns "\<lambda>n. \<not> Q n"] by simp
  finally show ?thesis .
qed

lemma attached_other_kind:
  "\<forall>r \<in> set extra. \<forall>i. r \<noteq> ref i \<Longrightarrow>
   attachedNodes ref (gone @ extra) xs = attachedNodes ref gone xs"
  unfolding attachedNodes_def
  by (rule arg_cong [where f = "map snd"]) (auto intro: filter_cong)

lemma attached_all_gone:
  "attachedNodes ref (gone @ filter (\<lambda>r. r \<notin> set gone) (map ref [0..<length xs])) xs = []"
  by (auto simp: attachedNodes_def filter_empty_conv in_set_enumerate_eq)

lemma internDescr_fields:
  "internDescr n =
     (if isGlobalImport n then n\<lparr>descr := GlobalType (valtype (descr n)) Var\<rparr> else n)"
  by (cases "descr n") (simp_all add: internDescr_def isGlobalImport_def)

lemma internDescr_other: "\<not> isGlobalImport n \<Longrightarrow> internDescr n = n"
  by (simp add: internDescr_def)

lemma rewriteImportedGlobals_treeOf:
  "rewriteImportedGlobals L (treeOf a, bin) =
     (case patchRemoved L (treeOf (a\<lparr>moduleImports := map internDescr (moduleImports a)\<rparr>)) bin
             (map ImportRef (getImportedGlobals a)) of
        (t', bin') \<Rightarrow>
          patchAdded L t' bin' (map internedGlobal (filter isGlobalImport (moduleImports a))))"
proof -
  have nodet: "\<forall>i. ImportRef i \<notin> set (detached (treeOf a))"
    by (simp add: treeOf_def)
  show ?thesis
    unfolding rewriteImportedGlobals_eq [OF nodet] by (simp add: treeOf_def)
qed

lemma patchRemoved_tree:
  "objects (fst (patchRemoved L t bin refs)) =
     (objects t)\<lparr>metadata := metadataAfterRemove L (attached (t\<lparr>detached := detached t @ refs\<rparr>)) bin refs\<rparr>"
  "detached (fst (patchRemoved L t bin refs)) = detached t @ refs"
  by (simp_all add: patchRemoved_def withMetadata_def Let_def)

lemma patchAdded_tree:
  "objects (fst (patchAdded L t bin ns)) =
     (objects t)\<lparr>metadata := metadataAfterAdd L (attached t) bin ns\<rparr>"
  "detached (fst (patchAdded L t bin ns)) = detached t"
  by (simp_all add: patchAdded_def withMetadata_def)

lemma interned_tree:
  "moduleImports (objects (fst (rewriteImportedGlobals L (treeOf a, bin))))
     = map internDescr (moduleImports a)"
  "starts (objects (fst (rewriteImportedGlobals L (treeOf a, bin)))) = starts a"
  "detached (fst (rewriteImportedGlobals L (treeOf a, bin)))
     = map ImportRef (getImportedGlobals a)"
  by (simp_all add: rewriteImportedGlobals_treeOf split_beta patchAdded_tree patchRemoved_tree)
     (simp_all add: treeOf_def)

lemma recording_fields:
  "recordingDecode (a, []) = Some a"
  "removeNodes recordingLib a b refs = (fst b, snd b @ [Removed refs])"
  "addWithAST recordingLib a b ns = (fst b, snd b @ [Added ns])"
  "metadataAfterRemove recordingLib a b refs = metadata a"
  "metadataAfterAdd recordingLib a b ns = metadata a"
  by (simp_all add: recordingLib_def recordingDecode_def)

lemma specLib_fields:
  "removeNodes specLib a b refs =
     b\<lparr>image_imports := filter (\<lambda>(i, n). ImportRef i \<notin> set refs) (image_imports b),
       image_starts := filter (\<lambda>(i, n). StartRef i \<notin> set refs) (image_starts b)\<rparr>"
  "addWithAST specLib a b ns =
     b\<lparr>image_globals := image_globals b @ filter isGlobalNode ns,
       image_added := image_added b @ filter (\<lambda>n. \<not> isGlobalNode n) ns\<rparr>"
  "metadataAfterRemove specLib a b refs = metadata a"
  "metadataAfterAdd specLib a b ns = metadata a"
  by (simp_all add: specLib_def)

lemma fullTree_globals:
  "filter isGlobalImport (moduleImports fullTree) =
     [envImport ''base'' (GlobalType F64 Const), envImport ''count'' (GlobalType I32 Var)]"
  by (simp add: fullTree_def envImport_def isGlobalImport_def)

lemma fullTree_refs: "getImportedGlobals fullTree = [1, 3]"
  by (simp add: getImportedGlobals_def fullTree_def envImport_def isGlobalImport_def)

lemma plainTree_facts:
  "filter isGlobalImport (moduleImports plainTree) = []"
  "starts plainTree = []"
  "getNextTypeIndex plainTree = 2"
  "getNextFuncIndex plainTree (getCountImportedFunc plainTree) = 4"
  by (simp_all add: plainTree_def envImport_def isGlobalImport_def isFuncImport_def
        getCountImportedFunc_def getNextTypeIndex_def getNextFuncIndex_def getSectionMetadata_def)

lemma interned_buffer:
  "snd (rewriteImportedGlobals L (treeOf a, bin)) =
     (case patchRemoved L (treeOf (a\<lparr>moduleImports := map internDescr (moduleImports a)\<rparr>)) bin
             (map ImportRef (getImportedGlobals a)) of
        (t', bin') \<Rightarrow>
          addWithAST L (attached t') bin'
            (map internedGlobal (filter isGlobalImport (moduleImports a))))"
  by (simp add: rewriteImportedGlobals_treeOf split_beta patchAdded_def)

lemma remaining_imports_no_global:
  "filter isGlobalImport
     (map snd (filter (\<lambda>(i, n). ImportRef i \<notin> set (map ImportRef (getImportedGlobals a)))
                 (enumerate 0 (moduleImports a)))) = []"
  by (auto simp: filter_empty_conv in_set_enumerate_eq getImportedGlobals_filter)

text \<open>
  On the module image, the interning stage leaves no imported global, and the interned
  globals follow the globals the module already defined.
\<close>

lemma interned_globals_appended:
  "globalIndexSpace (snd (rewriteImportedGlobals specLib (treeOf a, imageOf a localGlobals))) =
     map DefinedGlobal localGlobals
     @ map DefinedGlobal (map internedGlobal (filter isGlobalImport (moduleImports a)))"
proof -
  have globals: "filter isGlobalNode (map internedGlobal ns) = map internedGlobal ns" for ns
    by (induction ns) (simp_all add: internedGlobal_def)
  show ?thesis
    using remaining_imports_no_global [of a]
    by (simp add: interned_buffer patchRemoved_def Let_def specLib_fields imageOf_def
          globalIndexSpace_def globals)
qed

lemma init_nodes_not_global:
  "filter isGlobalNode (initFunctionNodes a st) = []"
  "filter (\<lambda>n. \<not> isGlobalNode n) (initFunctionNodes a st) = initFunctionNodes a st"
  by (simp_all add: initFunctionNodes_def Let_def)

lemma interned_globals_global:
  "filter isGlobalNode (map internedGlobal ns) = map internedGlobal ns"
  "filter (\<lambda>n. \<not> isGlobalNode n) (map internedGlobal ns) = []"
  by (induction ns) (simp_all add: internedGlobal_def)

text \<open>
  The parameters are read through references to node objects. The interning stage
  overwrites descriptors of those objects, but nothing the parameters are built from.
\<close>

lemma funcParams_interned:
  assumes "\<forall>r \<in> set gs. r < length (moduleImports a)"
  shows "funcParams (a\<lparr>moduleImports := map internDescr (moduleImports a), metadata := md\<rparr>) gs
           = funcParams a gs"
proof -
  have keep: "descrValtype (descr (internDescr n)) = descrValtype (descr n) \<and>
              module (internDescr n) = module n \<and> name (internDescr n) = name n" for n
    by (cases "descr n") (simp_all add: internDescr_def)
  show ?thesis
    using assms by (simp add: funcParams_def Let_def keep)
qed

lemma refs_in_range: "\<forall>r \<in> set (getImportedGlobals a). r < length (moduleImports a)"
  by (simp add: getImportedGlobals_filter)

lemma initFunctionNodes_interned:
  "initFunctionNodes (a\<lparr>moduleImports := map internDescr (moduleImports a), metadata := md\<rparr>)
     (analyse a) = initFunctionNodes a (analyse a)"
  by (simp add: initFunctionNodes_def Let_def analyse_fields funcParams_interned [OF refs_in_range])

lemma specLib_add:
  "snd (patchAdded specLib t b ns) =
     b\<lparr>image_globals := image_globals b @ filter isGlobalNode ns,
       image_added := image_added b @ filter (\<lambda>n. \<not> isGlobalNode n) ns\<rparr>"
  by (simp add: patchAdded_def specLib_fields)

lemma specLib_remove:
  "snd (patchRemoved specLib t b refs) =
     b\<lparr>image_imports := filter (\<lambda>(i, n). ImportRef i \<notin> set refs) (image_imports b),
       image_starts := filter (\<lambda>(i, n). StartRef i \<notin> set refs) (image_starts b)\<rparr>"
  by (simp add: patchRemoved_def Let_def specLib_fields)

lemma specLib_keeps_tree:
  "fst (patchAdded specLib t b ns) = t"
  "fst (patchRemoved specLib t b refs) = t\<lparr>detached := detached t @ refs\<rparr>"
  by (simp_all add: patchAdded_def patchRemoved_def Let_def specLib_fields withMetadata_def
        attached_def)

lemma start_refs_of_decoded:
  "filter (\<lambda>r. r \<notin> set (map ImportRef gs)) (map StartRef ss) = map StartRef ss"
  by (induction ss) auto

lemma other_kind:
  "StartRef i \<notin> ImportRef ` S"
  "ImportRef i \<notin> StartRef ` S"
  by auto

lemma filter_all: "filter (\<lambda>(i, n). True) ys = ys"
  by (simp add: case_prod_beta)

text \<open>The three stages on the module image, for any shared tree.\<close>

lemma specLib_addInitFunction:
  "addInitFunction specLib st (t, b) =
     (t, b\<lparr>image_added := image_added b @ initFunctionNodes (objects t) st\<rparr>)"
  by (simp add: addInitFunction_def prod_eq_iff specLib_keeps_tree specLib_add
        init_nodes_not_global)

lemma specLib_removeStartFunc:
  "removeStartFunc specLib (t, b) =
     (t\<lparr>detached := detached t
           @ filter (\<lambda>r. r \<notin> set (detached t)) (map StartRef [0..<length (starts (objects t))])\<rparr>,
      b\<lparr>image_starts :=
           filter (\<lambda>(i, n). StartRef i \<notin>
                     set (filter (\<lambda>r. r \<notin> set (detached t))
                            (map StartRef [0..<length (starts (objects t))])))
             (image_starts b)\<rparr>)"
  by (simp add: removeStartFunc_def prod_eq_iff specLib_keeps_tree specLib_remove other_kind
        filter_all)

lemma specLib_rewriteImportedGlobals:
  assumes "\<forall>i. ImportRef i \<notin> set (detached t)"
  shows "rewriteImportedGlobals specLib (t, b) =
     (t\<lparr>objects := (objects t)\<lparr>moduleImports := map internDescr (moduleImports (objects t))\<rparr>,
        detached := detached t @ map ImportRef (getImportedGlobals (objects t))\<rparr>,
      b\<lparr>image_imports :=
           filter (\<lambda>(i, n). ImportRef i \<notin> set (map ImportRef (getImportedGlobals (objects t))))
             (image_imports b),
        image_globals := image_globals b
           @ map internedGlobal (filter isGlobalImport (moduleImports (objects t)))\<rparr>)"
  unfolding rewriteImportedGlobals_eq [OF assms]
  by (simp add: split_beta prod_eq_iff specLib_keeps_tree specLib_add specLib_remove
        interned_globals_global other_kind filter_all)

lemma fullTree_starts: "starts fullTree = [Start 4]"
  by (simp add: fullTree_def)

section \<open>Index analysis: next free indices and defaults\<close>

text \<open>
  C6. \<open>getNextTypeIndex\<close> returns 0 when the tree has no metadata for the type section,
  and the entry count \<open>n\<close> recorded in that metadata when the section is present.
  \<open>getNextFuncIndex\<close> returns the number of imported functions when the tree has no
  metadata for the function section, and \<open>n\<close> plus the number of imported functions when
  the section is present with \<open>n\<close> entries.
\<close>

theorem next_index_correct:
  "(''type'' \<notin> section_name ` set (metadata a) \<longrightarrow> getNextTypeIndex a = 0) \<and>
   (filter (\<lambda>md. section_name md = ''type'') (metadata a) = [tm]
      \<longrightarrow> getNextTypeIndex a = vectorOfSize tm) \<and>
   (''func'' \<notin> section_name ` set (metadata a)
      \<longrightarrow> getNextFuncIndex a importedFuncCount = importedFuncCount) \<and>
   (filter (\<lambda>md. section_name md = ''func'') (metadata a) = [fm]
      \<longrightarrow> getNextFuncIndex a importedFuncCount = vectorOfSize fm + importedFuncCount)"
  by (simp add: getNextTypeIndex_def getNextFuncIndex_def getSectionMetadata_absent
        getSectionMetadata_unique)

theorem next_index_correct_witness:
  "''type'' \<notin> section_name ` set (metadata bareTree) \<and>
   getNextTypeIndex bareTree = 0 \<and>
   ''func'' \<notin> section_name ` set (metadata bareTree) \<and>
   getNextFuncIndex bareTree 5 = 5 \<and>
   filter (\<lambda>md. section_name md = ''type'') (metadata plainTree)
     = [\<lparr>section_name = ''type'', vectorOfSize = 2\<rparr>] \<and>
   getNextTypeIndex plainTree = 2 \<and>
   filter (\<lambda>md. section_name md = ''func'') (metadata plainTree)
     = [\<lparr>section_name = ''func'', vectorOfSize = 3\<rparr>] \<and>
   getNextFuncIndex plainTree 1 = 4"
proof -
  have absent_type: "''type'' \<notin> section_name ` set (metadata bareTree)"
    by (simp add: bareTree_def)
  have absent_func: "''func'' \<notin> section_name ` set (metadata bareTree)"
    by (simp add: bareTree_def)
  have present_type: "filter (\<lambda>md. section_name md = ''type'') (metadata plainTree)
     = [\<lparr>section_name = ''type'', vectorOfSize = 2\<rparr>]"
    by (simp add: plainTree_def)
  have present_func: "filter (\<lambda>md. section_name md = ''func'') (metadata plainTree)
     = [\<lparr>section_name = ''func'', vectorOfSize = 3\<rparr>]"
    by (simp add: plainTree_def)
  show ?thesis
    using absent_type absent_func present_type present_func
      next_index_correct [of bareTree _ 5 _]
      next_index_correct [of plainTree "\<lparr>section_name = ''type'', vectorOfSize = 2\<rparr>" 1
                             "\<lparr>section_name = ''func'', vectorOfSize = 3\<rparr>"]
    by simp
qed

text \<open>
  C8. Absent sections are not an error for the analysis functions, which return a value
  on every tree: \<open>getImportedGlobals\<close> returns the empty list when no import is a global,
  \<open>getCountImportedFunc\<close> returns 0 when no import is a function, \<open>getStartFuncIndex\<close>
  returns \<open>None\<close> (\<^verbatim>\<open>undefined\<close>) when there is no start node, and \<open>getNextTypeIndex\<close>
  and \<open>getNextFuncIndex\<close> return their zero-based defaults (0, and 0 plus the number of
  imported functions) when the type or the function section is missing.
\<close>

theorem absent_sections_defaults:
  "(filter isGlobalImport (moduleImports a) = [] \<longrightarrow> getImportedGlobals a = []) \<and>
   (filter isFuncImport (moduleImports a) = [] \<longrightarrow> getCountImportedFunc a = 0) \<and>
   (starts a = [] \<longrightarrow> getStartFuncIndex a = None) \<and>
   (''type'' \<notin> section_name ` set (metadata a) \<longrightarrow> getNextTypeIndex a = 0) \<and>
   (''func'' \<notin> section_name ` set (metadata a)
      \<longrightarrow> getNextFuncIndex a importedFuncCount = 0 + importedFuncCount)"
proof -
  have globals: "filter isGlobalImport (moduleImports a) = [] \<longrightarrow> getImportedGlobals a = []"
    by (auto simp: getImportedGlobals_filter filter_empty_conv)
  have funcs: "filter isFuncImport (moduleImports a) = [] \<longrightarrow> getCountImportedFunc a = 0"
    by (simp add: getCountImportedFunc_length)
  have start: "starts a = [] \<longrightarrow> getStartFuncIndex a = None"
    by (simp add: getStartFuncIndex_last)
  have types: "''type'' \<notin> section_name ` set (metadata a) \<longrightarrow> getNextTypeIndex a = 0"
    by (simp add: getNextTypeIndex_def getSectionMetadata_absent)
  have fns: "''func'' \<notin> section_name ` set (metadata a)
      \<longrightarrow> getNextFuncIndex a importedFuncCount = 0 + importedFuncCount"
    by (simp add: getNextFuncIndex_def getSectionMetadata_absent)
  from globals funcs start types fns show ?thesis by blast
qed

theorem absent_sections_defaults_witness:
  "filter isGlobalImport (moduleImports bareTree) = [] \<and>
   filter isFuncImport (moduleImports bareTree) = [] \<and>
   starts bareTree = [] \<and>
   ''type'' \<notin> section_name ` set (metadata bareTree) \<and>
   ''func'' \<notin> section_name ` set (metadata bareTree) \<and>
   getImportedGlobals bareTree = [] \<and> getCountImportedFunc bareTree = 0 \<and>
   getStartFuncIndex bareTree = None \<and> getNextTypeIndex bareTree = 0 \<and>
   getNextFuncIndex bareTree 0 = 0"
proof -
  have h1: "filter isGlobalImport (moduleImports bareTree) = []"
    by (simp add: bareTree_def envImport_def isGlobalImport_def)
  have h2: "filter isFuncImport (moduleImports bareTree) = []"
    by (simp add: bareTree_def envImport_def isFuncImport_def)
  have h3: "starts bareTree = []"
    by (simp add: bareTree_def)
  have h4: "''type'' \<notin> section_name ` set (metadata bareTree)"
    by (simp add: bareTree_def)
  have h5: "''func'' \<notin> section_name ` set (metadata bareTree)"
    by (simp add: bareTree_def)
  show ?thesis
    using h1 h2 h3 h4 h5 absent_sections_defaults [of bareTree 0] by simp
qed

section \<open>The order of the pipeline\<close>

text \<open>
  C1. For every input buffer that decodes, the transform that \<open>generate\<close> builds with
  \<open>compose\<close> from \<open>removeStartFunc\<close>, \<open>rewriteImportedGlobals\<close> and \<open>addInitFunction\<close>
  returns the buffer that the three stages return when they are applied in the stated
  order: \<open>removeStartFunc\<close> first, then \<open>rewriteImportedGlobals\<close>, then
  \<open>addInitFunction\<close>. This is proved on the module image. \<open>compose\<close> itself chains the
  stages from its last argument to its first; the two orders give the same buffer
  because the stages edit different sections and the init function is built from
  analysis results and node fields that no stage changes.
\<close>

theorem stated_order_output:
  assumes "decode bin = Some a"
  shows "generate decode specLib bin =
     Some (snd (addInitFunction specLib (analyse a)
                  (rewriteImportedGlobals specLib (removeStartFunc specLib (treeOf a, bin)))))"
proof -
  have no_import: "\<forall>i. ImportRef i \<notin> set (detached (treeOf a))"
    by (simp add: treeOf_def)
  have no_import': "\<forall>i. ImportRef i \<notin> set (detached (fst (removeStartFunc specLib (treeOf a, bin))))"
    by (auto simp: specLib_removeStartFunc treeOf_def)
  have nodes: "initFunctionNodes
                 (objects (fst (rewriteImportedGlobals specLib
                                  (removeStartFunc specLib (treeOf a, bin)))))
                 (analyse a) = initFunctionNodes a (analyse a)"
    using initFunctionNodes_interned [where a = a and md = "metadata a"]
    by (simp add: specLib_removeStartFunc specLib_rewriteImportedGlobals treeOf_def other_kind)
  have stated: "snd (addInitFunction specLib (analyse a)
                  (rewriteImportedGlobals specLib (removeStartFunc specLib (treeOf a, bin)))) =
     bin\<lparr>image_imports :=
           filter (\<lambda>(i, n). ImportRef i \<notin> set (map ImportRef (getImportedGlobals a)))
             (image_imports bin),
         image_starts :=
           filter (\<lambda>(i, n). StartRef i \<notin> set (map StartRef [0..<length (starts a)]))
             (image_starts bin),
         image_globals := image_globals bin
           @ map internedGlobal (filter isGlobalImport (moduleImports a)),
         image_added := image_added bin @ initFunctionNodes a (analyse a)\<rparr>"
  proof -
    have "snd (addInitFunction specLib (analyse a) w) =
            (snd w)\<lparr>image_added := image_added (snd w)
                       @ initFunctionNodes (objects (fst w)) (analyse a)\<rparr>" for w
      by (cases w) (simp add: specLib_addInitFunction)
    then have "snd (addInitFunction specLib (analyse a)
                  (rewriteImportedGlobals specLib (removeStartFunc specLib (treeOf a, bin)))) =
       (snd (rewriteImportedGlobals specLib (removeStartFunc specLib (treeOf a, bin))))
         \<lparr>image_added :=
            image_added (snd (rewriteImportedGlobals specLib
                                (removeStartFunc specLib (treeOf a, bin))))
            @ initFunctionNodes a (analyse a)\<rparr>"
      by (simp only: nodes)
    then show ?thesis
      by (simp add: specLib_removeStartFunc specLib_rewriteImportedGlobals treeOf_def
            other_kind)
  qed
  have actual: "snd (removeStartFunc specLib (rewriteImportedGlobals specLib
                  (addInitFunction specLib (analyse a) (treeOf a, bin)))) =
     bin\<lparr>image_imports :=
           filter (\<lambda>(i, n). ImportRef i \<notin> set (map ImportRef (getImportedGlobals a)))
             (image_imports bin),
         image_starts :=
           filter (\<lambda>(i, n). StartRef i \<notin> set (map StartRef [0..<length (starts a)]))
             (image_starts bin),
         image_globals := image_globals bin
           @ map internedGlobal (filter isGlobalImport (moduleImports a)),
         image_added := image_added bin @ initFunctionNodes a (analyse a)\<rparr>"
    by (simp add: specLib_addInitFunction specLib_rewriteImportedGlobals
          specLib_removeStartFunc treeOf_def other_kind start_refs_of_decoded)
  show ?thesis
    by (simp add: generate_pipeline assms actual stated)
qed

theorem stated_order_output_witness:
  "fullImageDecode fullImage = Some fullTree \<and>
   generate fullImageDecode specLib fullImage =
     Some \<lparr>image_imports = [(0, envImport ''log'' FuncImportDescr), (2, envImport ''mem'' Memory)],
           image_starts = [],
           image_globals =
             [localGlobal,
              Global (GlobalType F64 Var) [ObjectInstr ''const'' I32 [0]],
              Global (GlobalType I32 Var) [ObjectInstr ''const'' I32 [0]]],
           image_added = initFunctionNodes fullTree (analyse fullTree)\<rparr>"
proof -
  have d: "fullImageDecode fullImage = Some fullTree"
    by (simp add: fullImageDecode_def)
  have nodes: "initFunctionNodes
                 (fullTree\<lparr>moduleImports := map internDescr (moduleImports fullTree)\<rparr>)
                 (analyse fullTree) = initFunctionNodes fullTree (analyse fullTree)"
    using initFunctionNodes_interned [where a = fullTree and md = "metadata fullTree"] by simp
  have image: "fullImage =
     \<lparr>image_imports = [(0, envImport ''log'' FuncImportDescr),
                        (1, envImport ''base'' (GlobalType F64 Const)),
                        (2, envImport ''mem'' Memory),
                        (3, envImport ''count'' (GlobalType I32 Var))],
      image_starts = [(0, Start 4)],
      image_globals = [localGlobal],
      image_added = []\<rparr>"
    by (simp add: fullImage_def imageOf_def fullTree_def)
  have result: "snd (addInitFunction specLib (analyse fullTree)
                  (rewriteImportedGlobals specLib
                     (removeStartFunc specLib (treeOf fullTree, fullImage)))) =
     \<lparr>image_imports = [(0, envImport ''log'' FuncImportDescr), (2, envImport ''mem'' Memory)],
      image_starts = [],
      image_globals =
        [localGlobal,
         Global (GlobalType F64 Var) [ObjectInstr ''const'' I32 [0]],
         Global (GlobalType I32 Var) [ObjectInstr ''const'' I32 [0]]],
      image_added = initFunctionNodes fullTree (analyse fullTree)\<rparr>"
    by (simp add: specLib_addInitFunction specLib_removeStartFunc
          specLib_rewriteImportedGlobals treeOf_def other_kind nodes fullTree_refs
          fullTree_globals fullTree_starts internedGlobal_def envImport_def image)
  show ?thesis
    using stated_order_output [where decode = fullImageDecode and bin = fullImage, OF d]
    by (simp only: d result simp_thms)
qed

section \<open>Modules with nothing to intern\<close>

text \<open>
  C2 as stated: on a module with no imported global and no start section the output
  buffer is the input buffer. The plain module has neither, and the output of
  \<open>generate\<close> on it is not the input: \<open>addInitFunction\<close> adds its four nodes on every
  module.
\<close>

theorem identity_counterexample:
  "filter isGlobalImport (moduleImports plainTree) = [] \<and>
   starts plainTree = [] \<and>
   generate recordingDecode recordingLib (plainTree, []) \<noteq> Some (plainTree, [])"
proof -
  have "generate recordingDecode recordingLib (plainTree, []) =
     Some (plainTree,
       [Added (initFunctionNodes plainTree (analyse plainTree)),
        Removed [], Added [], Removed []])"
    by (simp add: generate_pipeline recording_fields addInitFunction_treeOf
          rewriteImportedGlobals_nothing plainTree_facts patchAdded_treeOf
          removeStartFunc_nothing)
  then show ?thesis by (simp add: plainTree_facts)
qed

text \<open>
  C2, amended: on a module with no imported global and no start section, the removal
  of start nodes and the interning stage ask the library for empty edits only (no node
  removed, no global added); the init function is still synthesized, with no parameter
  and an empty body. The output is the input buffer after \<^verbatim>\<open>addWithAST\<close> of that
  function, its export under \<^verbatim>\<open>__webpack_init__\<close> at the next function index, its
  function-section entry at the next type index and its type, followed by the three
  empty edits. The tree handed to each edit is the decoded tree with the metadata the
  library left on it.
\<close>

theorem no_globals_no_start_output:
  assumes "decode bin = Some a"
    and "filter isGlobalImport (moduleImports a) = []"
    and "starts a = []"
  shows "generate decode L bin =
     (let init = [Func (Identifier ''__webpack_init__'') (Signature [] []) [],
                  ModuleExport ''__webpack_init__'' ''Func''
                    (getNextFuncIndex a (getCountImportedFunc a)),
                  IndexInFuncSection (getNextTypeIndex a),
                  TypeInstruction (Signature [] [])];
          bin1 = addWithAST L a bin init;
          a1 = a\<lparr>metadata := metadataAfterAdd L a bin init\<rparr>;
          bin2 = removeNodes L a1 bin1 [];
          a2 = a1\<lparr>metadata := metadataAfterRemove L a1 bin1 []\<rparr>;
          bin3 = addWithAST L a2 bin2 [];
          a3 = a2\<lparr>metadata := metadataAfterAdd L a2 bin2 []\<rparr>
      in Some (removeNodes L a3 bin3 []))"
proof -
  have refs: "getImportedGlobals a = []"
    using assms(2) by (rule getImportedGlobals_none)
  have start: "getStartFuncIndex a = None"
    using assms(3) by (simp add: getStartFuncIndex_last)
  have nodes: "initFunctionNodes a (analyse a) =
      [Func (Identifier ''__webpack_init__'') (Signature [] []) [],
       ModuleExport ''__webpack_init__'' ''Func'' (getNextFuncIndex a (getCountImportedFunc a)),
       IndexInFuncSection (getNextTypeIndex a),
       TypeInstruction (Signature [] [])]"
    by (simp add: initFunctionNodes_def Let_def analyse_fields refs start funcParams_def
          funcBody_def initFuncId_def)
  have globals: "filter isGlobalImport (moduleImports (a\<lparr>metadata := md\<rparr>)) = []" for md
    using assms(2) by simp
  have starts: "starts (a\<lparr>metadata := md\<rparr>) = []" for md
    using assms(3) by simp
  show ?thesis
    by (simp add: generate_pipeline assms(1) addInitFunction_treeOf nodes
          rewriteImportedGlobals_nothing [OF globals] patchAdded_treeOf
          removeStartFunc_nothing [OF starts] Let_def)
qed

theorem no_globals_no_start_output_witness:
  "recordingDecode (plainTree, []) = Some plainTree \<and>
   filter isGlobalImport (moduleImports plainTree) = [] \<and>
   starts plainTree = [] \<and>
   generate recordingDecode recordingLib (plainTree, []) =
     Some (plainTree,
       [Added [Func (Identifier ''__webpack_init__'') (Signature [] []) [],
               ModuleExport ''__webpack_init__'' ''Func'' 4,
               IndexInFuncSection 2,
               TypeInstruction (Signature [] [])],
        Removed [], Added [], Removed []])"
proof -
  have d: "recordingDecode (plainTree, []) = Some plainTree"
    by (simp add: recording_fields)
  show ?thesis
    using no_globals_no_start_output
            [where decode = recordingDecode and L = recordingLib, OF d plainTree_facts(1)
               plainTree_facts(2)]
    by (simp add: recording_fields plainTree_facts Let_def)
qed

section \<open>The interning stage\<close>

text \<open>
  C3. For every global import the interning stage appends a global whose mutability is
  \<open>Var\<close> whatever the import's mutability was, and whose placeholder initializer is a
  zero constant of the import's value type. The code meets the first half and misses
  the second: the initializer is built with the constant type \<^verbatim>\<open>"i32"\<close> for every
  import. On the tree with an immutable \<open>F64\<close> import and a mutable \<open>I32\<close> import, both
  imports are removed and two mutable globals are added, and the \<open>F64\<close> global carries
  the initializer \<^verbatim>\<open>i32.const 0\<close>.
\<close>

theorem interned_f64_global_has_i32_initializer:
  "snd (rewriteImportedGlobals recordingLib (treeOf fullTree, (fullTree, []))) =
     (fullTree,
      [Removed [ImportRef 1, ImportRef 3],
       Added [Global (GlobalType F64 Var) [ObjectInstr ''const'' I32 [0]],
              Global (GlobalType I32 Var) [ObjectInstr ''const'' I32 [0]]]])"
  by (simp add: interned_buffer patchRemoved_def Let_def recording_fields fullTree_globals
        fullTree_refs internedGlobal_def envImport_def)

text \<open>
  C4. After the interning stage the global index space holds the interned globals at
  the indices of the imports they replace, followed by the globals the module already
  defined. On the module image this fails as soon as the module defines a global: the
  stage hands the new globals to \<^verbatim>\<open>addWithAST\<close> without a position, and they are appended
  after the existing ones. With one imported and one defined global, the defined global
  moves from index 1 to index 0 and the interned global takes index 1.
\<close>

theorem interned_global_after_local_global:
  "globalIndexSpace (imageOf localTree [localGlobal]) =
     [ImportedGlobal (envImport ''base'' (GlobalType I32 Const)), DefinedGlobal localGlobal] \<and>
   globalIndexSpace (snd (rewriteImportedGlobals specLib
                            (treeOf localTree, imageOf localTree [localGlobal]))) =
     [DefinedGlobal localGlobal,
      DefinedGlobal (Global (GlobalType I32 Var) [ObjectInstr ''const'' I32 [0]])]"
proof -
  have before: "globalIndexSpace (imageOf localTree [localGlobal]) =
     [ImportedGlobal (envImport ''base'' (GlobalType I32 Const)), DefinedGlobal localGlobal]"
    by (simp add: globalIndexSpace_def imageOf_def localTree_def isGlobalImport_def
          envImport_def)
  have after: "globalIndexSpace (snd (rewriteImportedGlobals specLib
                            (treeOf localTree, imageOf localTree [localGlobal]))) =
     [DefinedGlobal localGlobal,
      DefinedGlobal (Global (GlobalType I32 Var) [ObjectInstr ''const'' I32 [0]])]"
    using interned_globals_appended [of localTree "[localGlobal]"]
    by (simp add: localTree_def isGlobalImport_def envImport_def internedGlobal_def)
  from before after show ?thesis by simp
qed

section \<open>Writes to the shared tree\<close>

text \<open>
  C9 as stated: no stage modifies a node of the decoded tree, and after the interning
  stage every import descriptor, its mutability included, is as decoded. The interning
  stage assigns to the mutability of the descriptor it visits: the node object of the
  immutable \<open>F64\<close> import is mutable afterwards.
\<close>

theorem tree_unchanged_counterexample:
  "descr (moduleImports fullTree ! 1) = GlobalType F64 Const \<and>
   descr (moduleImports
            (objects (fst (rewriteImportedGlobals recordingLib (treeOf fullTree, (fullTree, [])))))
          ! 1)
     = GlobalType F64 Var"
  by (simp add: interned_tree) (simp add: fullTree_def envImport_def internDescr_def
        isGlobalImport_def)

text \<open>
  C9, amended: the stages do modify the tree. The interning stage, run on a tree as
  decoded, sets the mutability of every global import's descriptor to \<open>Var\<close> and removes
  the global imports from the tree: the node objects keep their module name, entity
  name and value type, the imports left in the tree are the imports that are not
  globals, as decoded and in their order, and the start nodes stay. \<open>removeStartFunc\<close>
  removes every start node from the tree and leaves the import nodes, in the tree and as
  objects, as they are. \<open>addInitFunction\<close> neither writes to nor removes an import or
  start node. The section metadata of the tree is what the patch library leaves after
  each edit.
\<close>

theorem tree_writes:
  "moduleImports (objects (fst (rewriteImportedGlobals L (treeOf a, bin)))) =
     map (\<lambda>n. if isGlobalImport n then n\<lparr>descr := GlobalType (valtype (descr n)) Var\<rparr> else n)
       (moduleImports a) \<and>
   moduleImports (attached (fst (rewriteImportedGlobals L (treeOf a, bin)))) =
     filter (\<lambda>n. \<not> isGlobalImport n) (moduleImports a) \<and>
   starts (attached (fst (rewriteImportedGlobals L (treeOf a, bin)))) = starts a \<and>
   starts (attached (fst (removeStartFunc L (t, bin)))) = [] \<and>
   moduleImports (attached (fst (removeStartFunc L (t, bin)))) = moduleImports (attached t) \<and>
   moduleImports (objects (fst (removeStartFunc L (t, bin)))) = moduleImports (objects t) \<and>
   moduleImports (attached (fst (addInitFunction L st (t, bin)))) = moduleImports (attached t) \<and>
   starts (attached (fst (addInitFunction L st (t, bin)))) = starts (attached t) \<and>
   moduleImports (objects (fst (addInitFunction L st (t, bin)))) = moduleImports (objects t)"
proof -
  have written: "moduleImports (objects (fst (rewriteImportedGlobals L (treeOf a, bin)))) =
     map (\<lambda>n. if isGlobalImport n then n\<lparr>descr := GlobalType (valtype (descr n)) Var\<rparr> else n)
       (moduleImports a)"
    using internDescr_fields by (simp add: interned_tree)
  have "moduleImports (attached (fst (rewriteImportedGlobals L (treeOf a, bin)))) =
     map internDescr (filter (\<lambda>n. \<not> isGlobalImport n) (moduleImports a))"
    by (simp add: attached_def interned_tree getImportedGlobals_filter attached_after_interning)
  also have "\<dots> = filter (\<lambda>n. \<not> isGlobalImport n) (moduleImports a)"
    by (rule map_idI) (simp add: internDescr_other)
  finally have left: "moduleImports (attached (fst (rewriteImportedGlobals L (treeOf a, bin)))) =
     filter (\<lambda>n. \<not> isGlobalImport n) (moduleImports a)" .
  have "starts (attached (fst (rewriteImportedGlobals L (treeOf a, bin))))
          = attachedNodes StartRef ([] @ map ImportRef (getImportedGlobals a)) (starts a)"
    by (simp add: attached_def interned_tree)
  also have "\<dots> = starts a"
    by (subst attached_other_kind) (auto simp: attachedNodes_none)
  finally have starts_kept:
    "starts (attached (fst (rewriteImportedGlobals L (treeOf a, bin)))) = starts a" .
  have starts_gone: "starts (attached (fst (removeStartFunc L (t, bin)))) = []"
    by (simp add: removeStartFunc_def attached_def patchRemoved_tree attached_all_gone)
  have imports_kept:
    "moduleImports (attached (fst (removeStartFunc L (t, bin)))) = moduleImports (attached t)"
    by (simp add: removeStartFunc_def attached_def patchRemoved_tree)
       (rule attached_other_kind, auto)
  have objects_kept:
    "moduleImports (objects (fst (removeStartFunc L (t, bin)))) = moduleImports (objects t)"
    by (simp add: removeStartFunc_def patchRemoved_tree)
  have init: "moduleImports (attached (fst (addInitFunction L st (t, bin)))) = moduleImports (attached t) \<and>
   starts (attached (fst (addInitFunction L st (t, bin)))) = starts (attached t) \<and>
   moduleImports (objects (fst (addInitFunction L st (t, bin)))) = moduleImports (objects t)"
    by (simp add: addInitFunction_def attached_def patchAdded_tree)
  from written left starts_kept starts_gone imports_kept objects_kept init
  show ?thesis by simp
qed

theorem tree_writes_witness:
  "moduleImports
     (attached (fst (rewriteImportedGlobals recordingLib (treeOf fullTree, (fullTree, []))))) =
     [envImport ''log'' FuncImportDescr, envImport ''mem'' Memory] \<and>
   moduleImports
     (objects (fst (rewriteImportedGlobals recordingLib (treeOf fullTree, (fullTree, []))))) =
     [envImport ''log'' FuncImportDescr,
      envImport ''base'' (GlobalType F64 Var),
      envImport ''mem'' Memory,
      envImport ''count'' (GlobalType I32 Var)] \<and>
   starts (attached (fst (removeStartFunc recordingLib (treeOf fullTree, (fullTree, []))))) = []"
  using tree_writes [of recordingLib fullTree "(fullTree, [])" "treeOf fullTree"]
  by (simp add: fullTree_def envImport_def isGlobalImport_def)

section \<open>The synthesized init function\<close>

text \<open>
  C5. The body of the init function that \<open>generate\<close> synthesizes is exactly \<open>k\<close> pairs
  (read parameter \<open>i\<close>, write global \<open>i\<close>) for \<open>i\<close> from 0 up to \<open>k\<close>, where \<open>k\<close> is the
  number of imported globals, followed by a call of the start function's index when
  the module has a start node and by nothing otherwise. The index called is the one
  the decoded start node carries, and the body contains a call if and only if the
  module has a start node.
\<close>

theorem init_body:
  "hd (initFunctionNodes a (analyse a)) =
     Func initFuncId (Signature (funcParams a (getImportedGlobals a)) [])
       (funcBody (getImportedGlobals a) (getStartFuncIndex a)) \<and>
   funcBody (getImportedGlobals a) (getStartFuncIndex a) =
     concat (map (\<lambda>i. [Instr ''get_local'' [i], Instr ''set_global'' [i]])
               [0..<length (filter isGlobalImport (moduleImports a))])
     @ (if starts a = [] then [] else [CallInstr (index (last (starts a)))]) \<and>
   ((\<exists>s. CallInstr s \<in> set (funcBody (getImportedGlobals a) (getStartFuncIndex a)))
      = (starts a \<noteq> []))"
proof -
  have node: "hd (initFunctionNodes a (analyse a)) =
     Func initFuncId (Signature (funcParams a (getImportedGlobals a)) [])
       (funcBody (getImportedGlobals a) (getStartFuncIndex a))"
    by (simp add: initFunctionNodes_def Let_def analyse_fields)
  have body: "funcBody (getImportedGlobals a) (getStartFuncIndex a) =
     concat (map (\<lambda>i. [Instr ''get_local'' [i], Instr ''set_global'' [i]])
               [0..<length (filter isGlobalImport (moduleImports a))])
     @ (if starts a = [] then [] else [CallInstr (index (last (starts a)))])"
    by (simp add: funcBody_eq length_getImportedGlobals getStartFuncIndex_last)
  have call: "(\<exists>s. CallInstr s \<in> set (funcBody (getImportedGlobals a) (getStartFuncIndex a)))
      = (starts a \<noteq> [])"
    unfolding body using no_call_in_pairs by (cases "starts a = []") auto
  from node body call show ?thesis by blast
qed

theorem init_body_witness:
  "funcBody (getImportedGlobals fullTree) (getStartFuncIndex fullTree) =
     [Instr ''get_local'' [0], Instr ''set_global'' [0],
      Instr ''get_local'' [1], Instr ''set_global'' [1], CallInstr 4] \<and>
   funcBody (getImportedGlobals plainTree) (getStartFuncIndex plainTree) = []"
  using init_body [of fullTree] init_body [of plainTree]
  by (simp add: fullTree_def plainTree_def envImport_def isGlobalImport_def upt_rec)

text \<open>
  C7. The init function that \<open>generate\<close> synthesizes has one parameter per imported
  global, in the order of the import declarations; each parameter has the value type
  of its import and is named by the import's module name, a dot and its entity name.
  The function declares no result, and the type added for it has the same signature.
\<close>

theorem init_params:
  "hd (initFunctionNodes a (analyse a)) =
     Func initFuncId
       (Signature
          (map (\<lambda>g. FuncParam (Some (valtype (descr g))) (Identifier (module g @ ''.'' @ name g)))
             (filter isGlobalImport (moduleImports a)))
          [])
       (funcBody (getImportedGlobals a) (getStartFuncIndex a)) \<and>
   initFunctionNodes a (analyse a) ! 3 =
     TypeInstruction
       (Signature
          (map (\<lambda>g. FuncParam (Some (valtype (descr g))) (Identifier (module g @ ''.'' @ name g)))
             (filter isGlobalImport (moduleImports a)))
          [])"
  by (simp add: initFunctionNodes_def Let_def analyse_fields funcParams_analyse)

theorem init_params_witness:
  "hd (initFunctionNodes fullTree (analyse fullTree)) =
     Func initFuncId
       (Signature [FuncParam (Some F64) (Identifier ''env.base''),
                   FuncParam (Some I32) (Identifier ''env.count'')] [])
       (funcBody (getImportedGlobals fullTree) (getStartFuncIndex fullTree))"
  using init_params [of fullTree]
  by (simp add: fullTree_def envImport_def isGlobalImport_def)

text \<open>
  C10. Whatever the tree and the analysis results, the function that \<open>addInitFunction\<close>
  adds has the identifier \<^verbatim>\<open>__webpack_init__\<close>, and the export it adds exposes a function
  under the name \<^verbatim>\<open>__webpack_init__\<close>.
\<close>

theorem init_reserved_name:
  "initFunctionNodes a st =
     [Func (Identifier ''__webpack_init__'')
        (Signature (funcParams a (importedGlobals st)) [])
        (funcBody (importedGlobals st) (startAtFuncIndex st)),
      ModuleExport ''__webpack_init__'' ''Func'' (nextFuncIndex st),
      IndexInFuncSection (nextTypeIndex st),
      TypeInstruction (Signature (funcParams a (importedGlobals st)) [])]"
  by (simp add: initFunctionNodes_def Let_def initFuncId_def)

end
